theory Spec2Isabelle
  imports Main "HOL-Library.Word"
begin

section \<open>The MuPDF wrapper: \<^verbatim>\<open>src/wrapper/mupdf.c\<close>\<close>

text \<open>
  The file is one macro, \<^verbatim>\<open>WRAP\<close>, and six uses of it. Each use defines a
  function \<^verbatim>\<open>mp_name(ctx, args)\<close> whose body is
  \<^verbatim>\<open>
    ret_type ret;
    fz_try (ctx) { ret = call; }
    fz_catch (ctx) { ret = failure_val; }
    return ret;
  \<close>
  The library behind it (\<^verbatim>\<open>mupdf/fitz.h\<close>) is not part of the repository: its six
  functions are parameters of the model, and every theorem holds for every library.
\<close>

subsection \<open>C values\<close>

text \<open>
  A pointer is the null pointer or the address of an object. The wrapper never
  dereferences one, so the address is an opaque number. \<^verbatim>\<open>int\<close> is a 32-bit
  two's complement integer, read with \<^const>\<open>sint\<close>.
\<close>

datatype ptr = NULL | Ptr nat

type_synonym c_int = "32 word"

subsection \<open>Calls into the library\<close>

text \<open>
  A library call either returns a value or throws (\<^verbatim>\<open>fz_throw\<close>, a
  \<^verbatim>\<open>longjmp\<close> to the innermost \<^verbatim>\<open>fz_try\<close>); the exception carries a code and a
  message. Whatever memory the library reads and writes (the context, documents, files) is
  the opaque state \<open>'w\<close>, threaded through every call.
\<close>

datatype fz_error = Fz_error (errcode: int) (message: string)

datatype 'a outcome = Returns 'a | Throws fz_error

type_synonym ('a, 'w) fz_call = "'w \<Rightarrow> 'a outcome \<times> 'w"

record 'w fitz =
  fz_open_document :: "ptr \<Rightarrow> ptr \<Rightarrow> (ptr, 'w) fz_call"
  fz_open_document_with_stream :: "ptr \<Rightarrow> ptr \<Rightarrow> ptr \<Rightarrow> (ptr, 'w) fz_call"
  fz_load_page :: "ptr \<Rightarrow> ptr \<Rightarrow> c_int \<Rightarrow> (ptr, 'w) fz_call"
  fz_load_outline :: "ptr \<Rightarrow> ptr \<Rightarrow> (ptr, 'w) fz_call"
  fz_count_pages :: "ptr \<Rightarrow> ptr \<Rightarrow> (c_int, 'w) fz_call"
  fz_new_stext_page_from_page :: "ptr \<Rightarrow> ptr \<Rightarrow> ptr \<Rightarrow> (ptr, 'w) fz_call"

subsection \<open>The body of \<^verbatim>\<open>WRAP\<close>, statement by statement\<close>

text \<open>
  The wrapper's frame: its one local variable \<^verbatim>\<open>ret\<close>, \<open>None\<close> while it has not
  been assigned, and the library's state. A statement maps a frame to a frame and says
  whether an exception is in flight when it ends.
\<close>

record ('a, 'w) frame =
  ret :: "'a option"
  world :: 'w

type_synonym ('a, 'w) stmt = "('a, 'w) frame \<Rightarrow> fz_error option \<times> ('a, 'w) frame"

text \<open>\<^verbatim>\<open>ret = call;\<close> When the call throws, the assignment does not happen.\<close>

definition assign_call :: "('a, 'w) fz_call \<Rightarrow> ('a, 'w) stmt" where
  "assign_call call s =
     (case call (world s) of
        (Returns v, w') \<Rightarrow> (None, s\<lparr>ret := Some v, world := w'\<rparr>)
      | (Throws e, w') \<Rightarrow> (Some e, s\<lparr>world := w'\<rparr>))"

text \<open>\<^verbatim>\<open>ret = failure_val;\<close>\<close>

definition assign_val :: "'a \<Rightarrow> ('a, 'w) stmt" where
  "assign_val c s = (None, s\<lparr>ret := Some c\<rparr>)"

text \<open>
  Modelled from the spec: the macros \<^verbatim>\<open>fz_try\<close> and \<^verbatim>\<open>fz_catch\<close> come from
  \<^verbatim>\<open>mupdf/fitz.h\<close>, which is not in the repository. The spec (4.1, steps 1, 4 and 5)
  has them open an error-handling region bound to the context \<open>ctx\<close>, run the body in
  it, intercept any exception the body raises and then run the handler, and leave the
  region on both paths. The exception's code and message are not handed to the handler.
  The region's own bookkeeping inside the context is balanced on both paths and is not
  modelled.
\<close>

definition fz_try_catch :: "ptr \<Rightarrow> ('a, 'w) stmt \<Rightarrow> ('a, 'w) stmt \<Rightarrow> ('a, 'w) stmt" where
  "fz_try_catch ctx body handler s =
     (case body s of
        (None, s') \<Rightarrow> (None, s')
      | (Some e, s') \<Rightarrow> handler s')"

text \<open>
  The macro. The result is what the caller sees: \<open>Returns (Some v)\<close> when the function
  returns the assigned value \<open>v\<close>, \<open>Returns None\<close> if it returned \<^verbatim>\<open>ret\<close>
  unassigned, \<open>Throws e\<close> if an exception left the function.
\<close>

definition WRAP :: "'a \<Rightarrow> ('a, 'w) fz_call \<Rightarrow> ptr \<Rightarrow> 'w \<Rightarrow> 'a option outcome \<times> 'w" where
  "WRAP failure_val call ctx w =
     (case fz_try_catch ctx (assign_call call) (assign_val failure_val)
             \<lparr>ret = None, world = w\<rparr> of
        (None, s) \<Rightarrow> (Returns (ret s), world s)
      | (Some e, s) \<Rightarrow> (Throws e, world s))"

subsection \<open>The six wrapped operations\<close>

definition mp_open_document ::
  "'w fitz \<Rightarrow> ptr \<Rightarrow> ptr \<Rightarrow> 'w \<Rightarrow> ptr option outcome \<times> 'w" where
  "mp_open_document L ctx path = WRAP NULL (fz_open_document L ctx path) ctx"

definition mp_open_document_with_stream ::
  "'w fitz \<Rightarrow> ptr \<Rightarrow> ptr \<Rightarrow> ptr \<Rightarrow> 'w \<Rightarrow> ptr option outcome \<times> 'w" where
  "mp_open_document_with_stream L ctx kind stream =
     WRAP NULL (fz_open_document_with_stream L ctx kind stream) ctx"

definition mp_load_page ::
  "'w fitz \<Rightarrow> ptr \<Rightarrow> ptr \<Rightarrow> c_int \<Rightarrow> 'w \<Rightarrow> ptr option outcome \<times> 'w" where
  "mp_load_page L ctx doc pageno = WRAP NULL (fz_load_page L ctx doc pageno) ctx"

definition mp_load_outline ::
  "'w fitz \<Rightarrow> ptr \<Rightarrow> ptr \<Rightarrow> 'w \<Rightarrow> ptr option outcome \<times> 'w" where
  "mp_load_outline L ctx doc = WRAP NULL (fz_load_outline L ctx doc) ctx"

definition mp_count_pages ::
  "'w fitz \<Rightarrow> ptr \<Rightarrow> ptr \<Rightarrow> 'w \<Rightarrow> c_int option outcome \<times> 'w" where
  "mp_count_pages L ctx doc = WRAP (- 1) (fz_count_pages L ctx doc) ctx"

definition mp_new_stext_page_from_page ::
  "'w fitz \<Rightarrow> ptr \<Rightarrow> ptr \<Rightarrow> ptr \<Rightarrow> 'w \<Rightarrow> ptr option outcome \<times> 'w" where
  "mp_new_stext_page_from_page L ctx page options =
     WRAP NULL (fz_new_stext_page_from_page L ctx page options) ctx"

subsection \<open>Test doubles\<close>

text \<open>
  A stub library for concrete runs: every pointer-returning function ends with the
  outcome \<open>p\<close>, \<^verbatim>\<open>fz_count_pages\<close> with the outcome \<open>n\<close>, and the state counts the
  calls made.
\<close>

definition stub_fitz :: "ptr outcome \<Rightarrow> c_int outcome \<Rightarrow> nat fitz" where
  "stub_fitz p n =
     \<lparr>fz_open_document = (\<lambda>ctx path w. (p, Suc w)),
      fz_open_document_with_stream = (\<lambda>ctx kind stream w. (p, Suc w)),
      fz_load_page = (\<lambda>ctx doc pageno w. (p, Suc w)),
      fz_load_outline = (\<lambda>ctx doc w. (p, Suc w)),
      fz_count_pages = (\<lambda>ctx doc w. (n, Suc w)),
      fz_new_stext_page_from_page = (\<lambda>ctx page options w. (p, Suc w))\<rparr>"

text \<open>
  A recording library for observing the calls a wrapper makes: it behaves as \<open>L\<close> does
  and appends to a log, kept beside the state of \<open>L\<close>, which function was called and
  with which arguments, in the order of the C parameter list.
\<close>

datatype fz_event =
  Open_document ptr ptr
| Open_document_with_stream ptr ptr ptr
| Load_page ptr ptr c_int
| Load_outline ptr ptr
| Count_pages ptr ptr
| New_stext_page_from_page ptr ptr ptr

definition logged :: "fz_event \<Rightarrow> ('a, 'w) fz_call \<Rightarrow> ('a, fz_event list \<times> 'w) fz_call" where
  "logged ev call = (\<lambda>(tr, w). case call w of (r, w') \<Rightarrow> (r, (tr @ [ev], w')))"

definition recording :: "'w fitz \<Rightarrow> (fz_event list \<times> 'w) fitz" where
  "recording L =
     \<lparr>fz_open_document = (\<lambda>ctx path.
        logged (Open_document ctx path) (fz_open_document L ctx path)),
      fz_open_document_with_stream = (\<lambda>ctx kind stream.
        logged (Open_document_with_stream ctx kind stream)
          (fz_open_document_with_stream L ctx kind stream)),
      fz_load_page = (\<lambda>ctx doc pageno.
        logged (Load_page ctx doc pageno) (fz_load_page L ctx doc pageno)),
      fz_load_outline = (\<lambda>ctx doc.
        logged (Load_outline ctx doc) (fz_load_outline L ctx doc)),
      fz_count_pages = (\<lambda>ctx doc.
        logged (Count_pages ctx doc) (fz_count_pages L ctx doc)),
      fz_new_stext_page_from_page = (\<lambda>ctx page options.
        logged (New_stext_page_from_page ctx page options)
          (fz_new_stext_page_from_page L ctx page options))\<rparr>"

section \<open>What \<^verbatim>\<open>WRAP\<close> computes\<close>

lemma WRAP_Returns:
  "call w = (Returns v, w') \<Longrightarrow> WRAP failure_val call ctx w = (Returns (Some v), w')"
  by (simp add: WRAP_def fz_try_catch_def assign_call_def)

lemma WRAP_Throws:
  "call w = (Throws e, w') \<Longrightarrow> WRAP failure_val call ctx w = (Returns (Some failure_val), w')"
  by (simp add: WRAP_def fz_try_catch_def assign_call_def assign_val_def)

lemma WRAP_fst:
  "fst (WRAP failure_val call ctx w) =
     Returns (Some (case fst (call w) of Returns v \<Rightarrow> v | Throws e \<Rightarrow> failure_val))"
proof (cases "call w")
  case (Pair r w')
  then show ?thesis
    by (cases r) (simp_all add: WRAP_Returns WRAP_Throws)
qed

lemma WRAP_snd: "snd (WRAP failure_val call ctx w) = snd (call w)"
proof (cases "call w")
  case (Pair r w')
  then show ?thesis
    by (cases r) (simp_all add: WRAP_Returns WRAP_Throws)
qed

lemma logged_fst: "fst (logged ev call (tr, w)) = fst (call w)"
  by (simp add: logged_def split: prod.split)

lemma logged_snd: "snd (logged ev call (tr, w)) = (tr @ [ev], snd (call w))"
  by (simp add: logged_def split: prod.split)

lemmas mp_defs =
  mp_open_document_def mp_open_document_with_stream_def mp_load_page_def
  mp_load_outline_def mp_count_pages_def mp_new_stext_page_from_page_def

section \<open>Claims\<close>

text \<open>
  C1. For each of the six wrapped operations and every input: if the library call throws,
  the wrapper returns normally, with that operation's sentinel (the null pointer, or -1
  for \<^verbatim>\<open>mp_count_pages\<close>); no exception leaves the wrapper.
\<close>

theorem wrapped_failure_returns_sentinel:
  "(fz_open_document L ctx path w = (Throws e, w')
      \<longrightarrow> mp_open_document L ctx path w = (Returns (Some NULL), w')) \<and>
   (fz_open_document_with_stream L ctx kind stream w = (Throws e, w')
      \<longrightarrow> mp_open_document_with_stream L ctx kind stream w = (Returns (Some NULL), w')) \<and>
   (fz_load_page L ctx doc pageno w = (Throws e, w')
      \<longrightarrow> mp_load_page L ctx doc pageno w = (Returns (Some NULL), w')) \<and>
   (fz_load_outline L ctx doc w = (Throws e, w')
      \<longrightarrow> mp_load_outline L ctx doc w = (Returns (Some NULL), w')) \<and>
   (fz_count_pages L ctx doc w = (Throws e, w')
      \<longrightarrow> mp_count_pages L ctx doc w = (Returns (Some (- 1)), w')) \<and>
   (fz_new_stext_page_from_page L ctx page options w = (Throws e, w')
      \<longrightarrow> mp_new_stext_page_from_page L ctx page options w = (Returns (Some NULL), w'))"
  by (simp add: mp_defs WRAP_Throws)

theorem wrapped_failure_returns_sentinel_witness:
  "fz_open_document (stub_fitz (Throws (Fz_error 2 ''no such file'')) (Throws (Fz_error 2 ''no such file'')))
     (Ptr 1) (Ptr 2) 0 = (Throws (Fz_error 2 ''no such file''), 1) \<and>
   mp_open_document (stub_fitz (Throws (Fz_error 2 ''no such file'')) (Throws (Fz_error 2 ''no such file'')))
     (Ptr 1) (Ptr 2) 0 = (Returns (Some NULL), 1) \<and>
   mp_open_document_with_stream (stub_fitz (Throws (Fz_error 2 ''no such file'')) (Throws (Fz_error 2 ''no such file'')))
     (Ptr 1) (Ptr 2) (Ptr 3) 0 = (Returns (Some NULL), 1) \<and>
   mp_load_page (stub_fitz (Throws (Fz_error 2 ''no such file'')) (Throws (Fz_error 2 ''no such file'')))
     (Ptr 1) (Ptr 4) 7 0 = (Returns (Some NULL), 1) \<and>
   mp_load_outline (stub_fitz (Throws (Fz_error 2 ''no such file'')) (Throws (Fz_error 2 ''no such file'')))
     (Ptr 1) (Ptr 4) 0 = (Returns (Some NULL), 1) \<and>
   fz_count_pages (stub_fitz (Throws (Fz_error 2 ''no such file'')) (Throws (Fz_error 2 ''no such file'')))
     (Ptr 1) (Ptr 4) 0 = (Throws (Fz_error 2 ''no such file''), 1) \<and>
   mp_count_pages (stub_fitz (Throws (Fz_error 2 ''no such file'')) (Throws (Fz_error 2 ''no such file'')))
     (Ptr 1) (Ptr 4) 0 = (Returns (Some (- 1)), 1) \<and>
   mp_new_stext_page_from_page (stub_fitz (Throws (Fz_error 2 ''no such file'')) (Throws (Fz_error 2 ''no such file'')))
     (Ptr 1) (Ptr 5) NULL 0 = (Returns (Some NULL), 1)"
  using wrapped_failure_returns_sentinel
    [where L = "stub_fitz (Throws (Fz_error 2 ''no such file'')) (Throws (Fz_error 2 ''no such file''))"
       and ctx = "Ptr 1" and path = "Ptr 2" and kind = "Ptr 2" and stream = "Ptr 3"
       and doc = "Ptr 4" and pageno = 7 and page = "Ptr 5" and options = NULL
       and w = 0 and e = "Fz_error 2 ''no such file''" and w' = 1]
  by (simp add: stub_fitz_def)

text \<open>
  C2. For each wrapped operation and every input: if the library call returns the value
  \<open>v\<close>, the wrapper returns exactly \<open>v\<close>.
\<close>

theorem wrapped_success_returns_value:
  "(fz_open_document L ctx path w = (Returns p, w')
      \<longrightarrow> mp_open_document L ctx path w = (Returns (Some p), w')) \<and>
   (fz_open_document_with_stream L ctx kind stream w = (Returns p, w')
      \<longrightarrow> mp_open_document_with_stream L ctx kind stream w = (Returns (Some p), w')) \<and>
   (fz_load_page L ctx doc pageno w = (Returns p, w')
      \<longrightarrow> mp_load_page L ctx doc pageno w = (Returns (Some p), w')) \<and>
   (fz_load_outline L ctx doc w = (Returns p, w')
      \<longrightarrow> mp_load_outline L ctx doc w = (Returns (Some p), w')) \<and>
   (fz_count_pages L ctx doc w = (Returns n, w')
      \<longrightarrow> mp_count_pages L ctx doc w = (Returns (Some n), w')) \<and>
   (fz_new_stext_page_from_page L ctx page options w = (Returns p, w')
      \<longrightarrow> mp_new_stext_page_from_page L ctx page options w = (Returns (Some p), w'))"
  by (simp add: mp_defs WRAP_Returns)

theorem wrapped_success_returns_value_witness:
  "fz_load_page (stub_fitz (Returns (Ptr 9)) (Returns 3)) (Ptr 1) (Ptr 4) 7 0 = (Returns (Ptr 9), 1) \<and>
   mp_open_document (stub_fitz (Returns (Ptr 9)) (Returns 3)) (Ptr 1) (Ptr 2) 0 = (Returns (Some (Ptr 9)), 1) \<and>
   mp_open_document_with_stream (stub_fitz (Returns (Ptr 9)) (Returns 3)) (Ptr 1) (Ptr 2) (Ptr 3) 0 = (Returns (Some (Ptr 9)), 1) \<and>
   mp_load_page (stub_fitz (Returns (Ptr 9)) (Returns 3)) (Ptr 1) (Ptr 4) 7 0 = (Returns (Some (Ptr 9)), 1) \<and>
   mp_load_outline (stub_fitz (Returns (Ptr 9)) (Returns 3)) (Ptr 1) (Ptr 4) 0 = (Returns (Some (Ptr 9)), 1) \<and>
   fz_count_pages (stub_fitz (Returns (Ptr 9)) (Returns 3)) (Ptr 1) (Ptr 4) 0 = (Returns 3, 1) \<and>
   mp_count_pages (stub_fitz (Returns (Ptr 9)) (Returns 3)) (Ptr 1) (Ptr 4) 0 = (Returns (Some 3), 1) \<and>
   mp_new_stext_page_from_page (stub_fitz (Returns (Ptr 9)) (Returns 3)) (Ptr 1) (Ptr 5) NULL 0 = (Returns (Some (Ptr 9)), 1)"
  using wrapped_success_returns_value
    [where L = "stub_fitz (Returns (Ptr 9)) (Returns 3)"
       and ctx = "Ptr 1" and path = "Ptr 2" and kind = "Ptr 2" and stream = "Ptr 3"
       and doc = "Ptr 4" and pageno = 7 and page = "Ptr 5" and options = NULL
       and w = 0 and p = "Ptr 9" and n = 3 and w' = 1]
  by (simp add: stub_fitz_def)

text \<open>
  C3. The sentinels have the type of the result they stand in for: when the library call
  throws, each of the five pointer-returning operations returns the null pointer, and
  \<^verbatim>\<open>mp_count_pages\<close> returns the integer -1: not 0, and no other negative number.
\<close>

theorem sentinel_type_correct:
  "(fz_open_document L ctx path w = (Throws e, w')
      \<longrightarrow> fst (mp_open_document L ctx path w) = Returns (Some NULL)) \<and>
   (fz_open_document_with_stream L ctx kind stream w = (Throws e, w')
      \<longrightarrow> fst (mp_open_document_with_stream L ctx kind stream w) = Returns (Some NULL)) \<and>
   (fz_load_page L ctx doc pageno w = (Throws e, w')
      \<longrightarrow> fst (mp_load_page L ctx doc pageno w) = Returns (Some NULL)) \<and>
   (fz_load_outline L ctx doc w = (Throws e, w')
      \<longrightarrow> fst (mp_load_outline L ctx doc w) = Returns (Some NULL)) \<and>
   (fz_new_stext_page_from_page L ctx page options w = (Throws e, w')
      \<longrightarrow> fst (mp_new_stext_page_from_page L ctx page options w) = Returns (Some NULL)) \<and>
   (fz_count_pages L ctx doc w = (Throws e, w')
      \<longrightarrow> (\<exists>r. fst (mp_count_pages L ctx doc w) = Returns (Some r) \<and>
                sint r = - 1 \<and> r \<noteq> 0 \<and> (\<forall>k. sint k < 0 \<and> sint k \<noteq> - 1 \<longrightarrow> r \<noteq> k)))"
  by (auto simp add: mp_defs WRAP_fst)

theorem sentinel_type_correct_witness:
  "fz_load_outline (stub_fitz (Throws (Fz_error 2 ''no such file'')) (Throws (Fz_error 2 ''no such file''))) (Ptr 1) (Ptr 4) 0 = (Throws (Fz_error 2 ''no such file''), 1) \<and>
   fst (mp_open_document (stub_fitz (Throws (Fz_error 2 ''no such file'')) (Throws (Fz_error 2 ''no such file''))) (Ptr 1) (Ptr 2) 0) = Returns (Some NULL) \<and>
   fst (mp_open_document_with_stream (stub_fitz (Throws (Fz_error 2 ''no such file'')) (Throws (Fz_error 2 ''no such file''))) (Ptr 1) (Ptr 2) (Ptr 3) 0) = Returns (Some NULL) \<and>
   fst (mp_load_page (stub_fitz (Throws (Fz_error 2 ''no such file'')) (Throws (Fz_error 2 ''no such file''))) (Ptr 1) (Ptr 4) 7 0) = Returns (Some NULL) \<and>
   fst (mp_load_outline (stub_fitz (Throws (Fz_error 2 ''no such file'')) (Throws (Fz_error 2 ''no such file''))) (Ptr 1) (Ptr 4) 0) = Returns (Some NULL) \<and>
   fst (mp_new_stext_page_from_page (stub_fitz (Throws (Fz_error 2 ''no such file'')) (Throws (Fz_error 2 ''no such file''))) (Ptr 1) (Ptr 5) NULL 0) = Returns (Some NULL) \<and>
   fz_count_pages (stub_fitz (Throws (Fz_error 2 ''no such file'')) (Throws (Fz_error 2 ''no such file''))) (Ptr 1) (Ptr 4) 0 = (Throws (Fz_error 2 ''no such file''), 1) \<and>
   (\<exists>r. fst (mp_count_pages (stub_fitz (Throws (Fz_error 2 ''no such file'')) (Throws (Fz_error 2 ''no such file''))) (Ptr 1) (Ptr 4) 0) = Returns (Some r) \<and> sint r = - 1 \<and> r \<noteq> 0)"
  using sentinel_type_correct
    [where L = "stub_fitz (Throws (Fz_error 2 ''no such file'')) (Throws (Fz_error 2 ''no such file''))"
       and ctx = "Ptr 1" and path = "Ptr 2" and kind = "Ptr 2" and stream = "Ptr 3"
       and doc = "Ptr 4" and pageno = 7 and page = "Ptr 5" and options = NULL
       and w = 0 and e = "Fz_error 2 ''no such file''" and w' = 1]
  by (simp add: stub_fitz_def) blast

text \<open>
  C4, as it is stated: whenever the library's count-pages call succeeds,
  \<^verbatim>\<open>mp_count_pages\<close> returns a non-negative integer, and -1 is returned only on
  failure. The wrapper does not look at the value it passes on: with a library whose
  \<^verbatim>\<open>fz_count_pages\<close> returns -1 without throwing, the call succeeds and
  \<^verbatim>\<open>mp_count_pages\<close> returns -1.
\<close>

theorem count_pages_success_nonneg_counterexample:
  "fz_count_pages (stub_fitz (Returns NULL) (Returns (- 1))) (Ptr 1) (Ptr 4) 0 = (Returns (- 1), 1) \<and>
   mp_count_pages (stub_fitz (Returns NULL) (Returns (- 1))) (Ptr 1) (Ptr 4) 0 = (Returns (Some (- 1)), 1) \<and>
   sint (- 1 :: c_int) < 0"
  by (simp add: stub_fitz_def mp_count_pages_def WRAP_def fz_try_catch_def assign_call_def)

text \<open>
  C4, amended. For every execution context and document handle: if the library's
  count-pages call succeeds with a non-negative value, \<^verbatim>\<open>mp_count_pages\<close> returns
  that value, a non-negative integer; and \<^verbatim>\<open>mp_count_pages\<close> returns -1 only when
  the library call failed or itself returned -1.
\<close>

theorem count_pages_nonneg_passed_through:
  "(fz_count_pages L ctx doc w = (Returns n, w') \<and> 0 \<le> sint n
      \<longrightarrow> (\<exists>r. mp_count_pages L ctx doc w = (Returns (Some r), w') \<and> r = n \<and> 0 \<le> sint r)) \<and>
   (fst (mp_count_pages L ctx doc w) = Returns (Some (- 1))
      \<longrightarrow> (\<exists>e. fst (fz_count_pages L ctx doc w) = Throws e) \<or>
          fst (fz_count_pages L ctx doc w) = Returns (- 1))"
proof (intro conjI impI)
  assume "fz_count_pages L ctx doc w = (Returns n, w') \<and> 0 \<le> sint n"
  then show "\<exists>r. mp_count_pages L ctx doc w = (Returns (Some r), w') \<and> r = n \<and> 0 \<le> sint r"
    by (simp add: mp_count_pages_def WRAP_Returns)
next
  assume m1: "fst (mp_count_pages L ctx doc w) = Returns (Some (- 1))"
  show "(\<exists>e. fst (fz_count_pages L ctx doc w) = Throws e) \<or>
        fst (fz_count_pages L ctx doc w) = Returns (- 1)"
  proof (cases "fst (fz_count_pages L ctx doc w)")
    case (Returns v)
    with m1 show ?thesis
      by (simp add: mp_count_pages_def WRAP_fst)
  next
    case (Throws e)
    then show ?thesis by simp
  qed
qed

theorem count_pages_nonneg_passed_through_witness:
  "fz_count_pages (stub_fitz (Returns (Ptr 9)) (Returns 3)) (Ptr 1) (Ptr 4) 0 = (Returns 3, 1) \<and>
   0 \<le> sint (3 :: c_int) \<and>
   mp_count_pages (stub_fitz (Returns (Ptr 9)) (Returns 3)) (Ptr 1) (Ptr 4) 0 = (Returns (Some 3), 1) \<and>
   fst (mp_count_pages (stub_fitz (Throws (Fz_error 2 ''no such file'')) (Throws (Fz_error 2 ''no such file''))) (Ptr 1) (Ptr 4) 0) = Returns (Some (- 1)) \<and>
   fst (fz_count_pages (stub_fitz (Throws (Fz_error 2 ''no such file'')) (Throws (Fz_error 2 ''no such file''))) (Ptr 1) (Ptr 4) 0) = Throws (Fz_error 2 ''no such file'')"
  using count_pages_nonneg_passed_through
    [where L = "stub_fitz (Returns (Ptr 9)) (Returns 3)" and ctx = "Ptr 1" and doc = "Ptr 4" and w = 0 and n = 3 and w' = 1]
    count_pages_nonneg_passed_through
    [where L = "stub_fitz (Throws (Fz_error 2 ''no such file'')) (Throws (Fz_error 2 ''no such file''))" and ctx = "Ptr 1" and doc = "Ptr 4" and w = 0 and n = 3 and w' = 1]
  by (simp add: stub_fitz_def mp_count_pages_def WRAP_fst)

text \<open>
  C5. The wrapper adds no nondeterminism of its own: for each wrapped operation, two
  invocations (in any two states of the library, such as before and after the first of
  them) in which the library call has the same outcome give the same result.
\<close>

theorem wrapper_adds_no_nondeterminism:
  "(fst (fz_open_document L ctx path w1) = fst (fz_open_document L ctx path w2)
      \<longrightarrow> fst (mp_open_document L ctx path w1) = fst (mp_open_document L ctx path w2)) \<and>
   (fst (fz_open_document_with_stream L ctx kind stream w1) =
      fst (fz_open_document_with_stream L ctx kind stream w2)
      \<longrightarrow> fst (mp_open_document_with_stream L ctx kind stream w1) =
          fst (mp_open_document_with_stream L ctx kind stream w2)) \<and>
   (fst (fz_load_page L ctx doc pageno w1) = fst (fz_load_page L ctx doc pageno w2)
      \<longrightarrow> fst (mp_load_page L ctx doc pageno w1) = fst (mp_load_page L ctx doc pageno w2)) \<and>
   (fst (fz_load_outline L ctx doc w1) = fst (fz_load_outline L ctx doc w2)
      \<longrightarrow> fst (mp_load_outline L ctx doc w1) = fst (mp_load_outline L ctx doc w2)) \<and>
   (fst (fz_count_pages L ctx doc w1) = fst (fz_count_pages L ctx doc w2)
      \<longrightarrow> fst (mp_count_pages L ctx doc w1) = fst (mp_count_pages L ctx doc w2)) \<and>
   (fst (fz_new_stext_page_from_page L ctx page options w1) =
      fst (fz_new_stext_page_from_page L ctx page options w2)
      \<longrightarrow> fst (mp_new_stext_page_from_page L ctx page options w1) =
          fst (mp_new_stext_page_from_page L ctx page options w2))"
  by (simp add: mp_defs WRAP_fst)

theorem wrapper_adds_no_nondeterminism_witness:
  "snd (mp_load_page (stub_fitz (Returns (Ptr 9)) (Returns 3)) (Ptr 1) (Ptr 4) 7 0) = 1 \<and>
   fst (fz_load_page (stub_fitz (Returns (Ptr 9)) (Returns 3)) (Ptr 1) (Ptr 4) 7 0) = fst (fz_load_page (stub_fitz (Returns (Ptr 9)) (Returns 3)) (Ptr 1) (Ptr 4) 7 1) \<and>
   fst (mp_open_document (stub_fitz (Returns (Ptr 9)) (Returns 3)) (Ptr 1) (Ptr 2) 0) = fst (mp_open_document (stub_fitz (Returns (Ptr 9)) (Returns 3)) (Ptr 1) (Ptr 2) 1) \<and>
   fst (mp_open_document_with_stream (stub_fitz (Returns (Ptr 9)) (Returns 3)) (Ptr 1) (Ptr 2) (Ptr 3) 0) =
     fst (mp_open_document_with_stream (stub_fitz (Returns (Ptr 9)) (Returns 3)) (Ptr 1) (Ptr 2) (Ptr 3) 1) \<and>
   fst (mp_load_page (stub_fitz (Returns (Ptr 9)) (Returns 3)) (Ptr 1) (Ptr 4) 7 0) = fst (mp_load_page (stub_fitz (Returns (Ptr 9)) (Returns 3)) (Ptr 1) (Ptr 4) 7 1) \<and>
   fst (mp_load_outline (stub_fitz (Returns (Ptr 9)) (Returns 3)) (Ptr 1) (Ptr 4) 0) = fst (mp_load_outline (stub_fitz (Returns (Ptr 9)) (Returns 3)) (Ptr 1) (Ptr 4) 1) \<and>
   fst (mp_count_pages (stub_fitz (Returns (Ptr 9)) (Returns 3)) (Ptr 1) (Ptr 4) 0) = fst (mp_count_pages (stub_fitz (Returns (Ptr 9)) (Returns 3)) (Ptr 1) (Ptr 4) 1) \<and>
   fst (mp_new_stext_page_from_page (stub_fitz (Returns (Ptr 9)) (Returns 3)) (Ptr 1) (Ptr 5) NULL 0) =
     fst (mp_new_stext_page_from_page (stub_fitz (Returns (Ptr 9)) (Returns 3)) (Ptr 1) (Ptr 5) NULL 1)"
  using wrapper_adds_no_nondeterminism
    [where L = "stub_fitz (Returns (Ptr 9)) (Returns 3)"
       and ctx = "Ptr 1" and path = "Ptr 2" and kind = "Ptr 2" and stream = "Ptr 3"
       and doc = "Ptr 4" and pageno = 7 and page = "Ptr 5" and options = NULL
       and ?w1.0 = 0 and ?w2.0 = 1]
  by (simp add: stub_fitz_def mp_load_page_def WRAP_snd)

text \<open>
  C6. The wrapper keeps no state and changes none: after each wrapped operation, on the
  success path and on the failure path alike, the state is exactly the state the one
  library call left.
\<close>

theorem wrapper_state_is_library_state:
  "snd (mp_open_document L ctx path w) = snd (fz_open_document L ctx path w) \<and>
   snd (mp_open_document_with_stream L ctx kind stream w) =
     snd (fz_open_document_with_stream L ctx kind stream w) \<and>
   snd (mp_load_page L ctx doc pageno w) = snd (fz_load_page L ctx doc pageno w) \<and>
   snd (mp_load_outline L ctx doc w) = snd (fz_load_outline L ctx doc w) \<and>
   snd (mp_count_pages L ctx doc w) = snd (fz_count_pages L ctx doc w) \<and>
   snd (mp_new_stext_page_from_page L ctx page options w) =
     snd (fz_new_stext_page_from_page L ctx page options w)"
  by (simp add: mp_defs WRAP_snd)

theorem wrapper_state_is_library_state_witness:
  "snd (mp_open_document (stub_fitz (Returns (Ptr 9)) (Returns 3)) (Ptr 1) (Ptr 2) 0) = 1 \<and>
   snd (mp_load_page (stub_fitz (Returns (Ptr 9)) (Returns 3)) (Ptr 1) (Ptr 4) 7 0) = 1 \<and>
   snd (mp_count_pages (stub_fitz (Returns (Ptr 9)) (Returns 3)) (Ptr 1) (Ptr 4) 0) = 1 \<and>
   snd (mp_open_document (stub_fitz (Throws (Fz_error 2 ''no such file'')) (Throws (Fz_error 2 ''no such file''))) (Ptr 1) (Ptr 2) 0) = 1 \<and>
   snd (mp_open_document_with_stream (stub_fitz (Throws (Fz_error 2 ''no such file'')) (Throws (Fz_error 2 ''no such file''))) (Ptr 1) (Ptr 2) (Ptr 3) 0) = 1 \<and>
   snd (mp_load_outline (stub_fitz (Throws (Fz_error 2 ''no such file'')) (Throws (Fz_error 2 ''no such file''))) (Ptr 1) (Ptr 4) 0) = 1 \<and>
   snd (mp_count_pages (stub_fitz (Throws (Fz_error 2 ''no such file'')) (Throws (Fz_error 2 ''no such file''))) (Ptr 1) (Ptr 4) 0) = 1 \<and>
   snd (mp_new_stext_page_from_page (stub_fitz (Throws (Fz_error 2 ''no such file'')) (Throws (Fz_error 2 ''no such file''))) (Ptr 1) (Ptr 5) NULL 0) = 1"
  using wrapper_state_is_library_state
    [where L = "stub_fitz (Returns (Ptr 9)) (Returns 3)"
       and ctx = "Ptr 1" and path = "Ptr 2" and kind = "Ptr 2" and stream = "Ptr 3"
       and doc = "Ptr 4" and pageno = 7 and page = "Ptr 5" and options = NULL and w = 0]
    wrapper_state_is_library_state
    [where L = "stub_fitz (Throws (Fz_error 2 ''no such file'')) (Throws (Fz_error 2 ''no such file''))"
       and ctx = "Ptr 1" and path = "Ptr 2" and kind = "Ptr 2" and stream = "Ptr 3"
       and doc = "Ptr 4" and pageno = 7 and page = "Ptr 5" and options = NULL and w = 0]
  by (simp add: stub_fitz_def)

text \<open>
  C7. A success that coincides with the sentinel cannot be told from a failure: for each
  wrapped operation, a run whose library call returns the sentinel value (the null
  pointer; -1 for \<^verbatim>\<open>mp_count_pages\<close>) and a run whose library call throws give the
  same return value.
\<close>

theorem sentinel_success_looks_like_failure:
  "(fz_open_document L1 ctx path w1 = (Returns NULL, w1') \<and>
    fz_open_document L2 ctx path w2 = (Throws e, w2')
      \<longrightarrow> fst (mp_open_document L1 ctx path w1) = fst (mp_open_document L2 ctx path w2)) \<and>
   (fz_open_document_with_stream L1 ctx kind stream w1 = (Returns NULL, w1') \<and>
    fz_open_document_with_stream L2 ctx kind stream w2 = (Throws e, w2')
      \<longrightarrow> fst (mp_open_document_with_stream L1 ctx kind stream w1) =
          fst (mp_open_document_with_stream L2 ctx kind stream w2)) \<and>
   (fz_load_page L1 ctx doc pageno w1 = (Returns NULL, w1') \<and>
    fz_load_page L2 ctx doc pageno w2 = (Throws e, w2')
      \<longrightarrow> fst (mp_load_page L1 ctx doc pageno w1) = fst (mp_load_page L2 ctx doc pageno w2)) \<and>
   (fz_load_outline L1 ctx doc w1 = (Returns NULL, w1') \<and>
    fz_load_outline L2 ctx doc w2 = (Throws e, w2')
      \<longrightarrow> fst (mp_load_outline L1 ctx doc w1) = fst (mp_load_outline L2 ctx doc w2)) \<and>
   (fz_count_pages L1 ctx doc w1 = (Returns (- 1), w1') \<and>
    fz_count_pages L2 ctx doc w2 = (Throws e, w2')
      \<longrightarrow> fst (mp_count_pages L1 ctx doc w1) = fst (mp_count_pages L2 ctx doc w2)) \<and>
   (fz_new_stext_page_from_page L1 ctx page options w1 = (Returns NULL, w1') \<and>
    fz_new_stext_page_from_page L2 ctx page options w2 = (Throws e, w2')
      \<longrightarrow> fst (mp_new_stext_page_from_page L1 ctx page options w1) =
          fst (mp_new_stext_page_from_page L2 ctx page options w2))"
  by (simp add: mp_defs WRAP_fst)

theorem sentinel_success_looks_like_failure_witness:
  "fz_load_outline (stub_fitz (Returns NULL) (Returns (- 1))) (Ptr 1) (Ptr 4) 0 = (Returns NULL, 1) \<and>
   fz_load_outline (stub_fitz (Throws (Fz_error 2 ''no such file'')) (Throws (Fz_error 2 ''no such file''))) (Ptr 1) (Ptr 4) 0 = (Throws (Fz_error 2 ''no such file''), 1) \<and>
   fz_count_pages (stub_fitz (Returns NULL) (Returns (- 1))) (Ptr 1) (Ptr 4) 0 = (Returns (- 1), 1) \<and>
   fz_count_pages (stub_fitz (Throws (Fz_error 2 ''no such file'')) (Throws (Fz_error 2 ''no such file''))) (Ptr 1) (Ptr 4) 0 = (Throws (Fz_error 2 ''no such file''), 1) \<and>
   fst (mp_open_document (stub_fitz (Returns NULL) (Returns (- 1))) (Ptr 1) (Ptr 2) 0) = fst (mp_open_document (stub_fitz (Throws (Fz_error 2 ''no such file'')) (Throws (Fz_error 2 ''no such file''))) (Ptr 1) (Ptr 2) 0) \<and>
   fst (mp_open_document_with_stream (stub_fitz (Returns NULL) (Returns (- 1))) (Ptr 1) (Ptr 2) (Ptr 3) 0) =
     fst (mp_open_document_with_stream (stub_fitz (Throws (Fz_error 2 ''no such file'')) (Throws (Fz_error 2 ''no such file''))) (Ptr 1) (Ptr 2) (Ptr 3) 0) \<and>
   fst (mp_load_page (stub_fitz (Returns NULL) (Returns (- 1))) (Ptr 1) (Ptr 4) 7 0) = fst (mp_load_page (stub_fitz (Throws (Fz_error 2 ''no such file'')) (Throws (Fz_error 2 ''no such file''))) (Ptr 1) (Ptr 4) 7 0) \<and>
   fst (mp_load_outline (stub_fitz (Returns NULL) (Returns (- 1))) (Ptr 1) (Ptr 4) 0) = fst (mp_load_outline (stub_fitz (Throws (Fz_error 2 ''no such file'')) (Throws (Fz_error 2 ''no such file''))) (Ptr 1) (Ptr 4) 0) \<and>
   fst (mp_count_pages (stub_fitz (Returns NULL) (Returns (- 1))) (Ptr 1) (Ptr 4) 0) = fst (mp_count_pages (stub_fitz (Throws (Fz_error 2 ''no such file'')) (Throws (Fz_error 2 ''no such file''))) (Ptr 1) (Ptr 4) 0) \<and>
   fst (mp_new_stext_page_from_page (stub_fitz (Returns NULL) (Returns (- 1))) (Ptr 1) (Ptr 5) NULL 0) =
     fst (mp_new_stext_page_from_page (stub_fitz (Throws (Fz_error 2 ''no such file'')) (Throws (Fz_error 2 ''no such file''))) (Ptr 1) (Ptr 5) NULL 0)"
  using sentinel_success_looks_like_failure
    [where ?L1.0 = "stub_fitz (Returns NULL) (Returns (- 1))" and ?L2.0 = "stub_fitz (Throws (Fz_error 2 ''no such file'')) (Throws (Fz_error 2 ''no such file''))"
       and ctx = "Ptr 1" and path = "Ptr 2" and kind = "Ptr 2" and stream = "Ptr 3"
       and doc = "Ptr 4" and pageno = 7 and page = "Ptr 5" and options = NULL
       and ?w1.0 = 0 and ?w1' = 1 and ?w2.0 = 0 and ?w2' = 1
       and e = "Fz_error 2 ''no such file''"]
  by (simp add: stub_fitz_def)

text \<open>
  C8. The value returned on failure does not depend on the exception: for each wrapped
  operation, two failing runs with the same arguments return the same value, whatever the
  codes and messages of the two exceptions.
\<close>

theorem failure_value_independent_of_exception:
  "(fz_open_document L1 ctx path w1 = (Throws e1, w1') \<and>
    fz_open_document L2 ctx path w2 = (Throws e2, w2')
      \<longrightarrow> fst (mp_open_document L1 ctx path w1) = fst (mp_open_document L2 ctx path w2)) \<and>
   (fz_open_document_with_stream L1 ctx kind stream w1 = (Throws e1, w1') \<and>
    fz_open_document_with_stream L2 ctx kind stream w2 = (Throws e2, w2')
      \<longrightarrow> fst (mp_open_document_with_stream L1 ctx kind stream w1) =
          fst (mp_open_document_with_stream L2 ctx kind stream w2)) \<and>
   (fz_load_page L1 ctx doc pageno w1 = (Throws e1, w1') \<and>
    fz_load_page L2 ctx doc pageno w2 = (Throws e2, w2')
      \<longrightarrow> fst (mp_load_page L1 ctx doc pageno w1) = fst (mp_load_page L2 ctx doc pageno w2)) \<and>
   (fz_load_outline L1 ctx doc w1 = (Throws e1, w1') \<and>
    fz_load_outline L2 ctx doc w2 = (Throws e2, w2')
      \<longrightarrow> fst (mp_load_outline L1 ctx doc w1) = fst (mp_load_outline L2 ctx doc w2)) \<and>
   (fz_count_pages L1 ctx doc w1 = (Throws e1, w1') \<and>
    fz_count_pages L2 ctx doc w2 = (Throws e2, w2')
      \<longrightarrow> fst (mp_count_pages L1 ctx doc w1) = fst (mp_count_pages L2 ctx doc w2)) \<and>
   (fz_new_stext_page_from_page L1 ctx page options w1 = (Throws e1, w1') \<and>
    fz_new_stext_page_from_page L2 ctx page options w2 = (Throws e2, w2')
      \<longrightarrow> fst (mp_new_stext_page_from_page L1 ctx page options w1) =
          fst (mp_new_stext_page_from_page L2 ctx page options w2))"
  by (simp add: mp_defs WRAP_fst)

theorem failure_value_independent_of_exception_witness:
  "fz_load_page (stub_fitz (Throws (Fz_error 2 ''no such file'')) (Throws (Fz_error 2 ''no such file''))) (Ptr 1) (Ptr 4) 7 0 = (Throws (Fz_error 2 ''no such file''), 1) \<and>
   fz_load_page (stub_fitz (Throws (Fz_error 7 ''syntax error'')) (Throws (Fz_error 7 ''syntax error''))) (Ptr 1) (Ptr 4) 7 0 = (Throws (Fz_error 7 ''syntax error''), 1) \<and>
   Fz_error 2 ''no such file'' \<noteq> Fz_error 7 ''syntax error'' \<and>
   fst (mp_open_document (stub_fitz (Throws (Fz_error 2 ''no such file'')) (Throws (Fz_error 2 ''no such file''))) (Ptr 1) (Ptr 2) 0) = fst (mp_open_document (stub_fitz (Throws (Fz_error 7 ''syntax error'')) (Throws (Fz_error 7 ''syntax error''))) (Ptr 1) (Ptr 2) 0) \<and>
   fst (mp_open_document_with_stream (stub_fitz (Throws (Fz_error 2 ''no such file'')) (Throws (Fz_error 2 ''no such file''))) (Ptr 1) (Ptr 2) (Ptr 3) 0) =
     fst (mp_open_document_with_stream (stub_fitz (Throws (Fz_error 7 ''syntax error'')) (Throws (Fz_error 7 ''syntax error''))) (Ptr 1) (Ptr 2) (Ptr 3) 0) \<and>
   fst (mp_load_page (stub_fitz (Throws (Fz_error 2 ''no such file'')) (Throws (Fz_error 2 ''no such file''))) (Ptr 1) (Ptr 4) 7 0) = fst (mp_load_page (stub_fitz (Throws (Fz_error 7 ''syntax error'')) (Throws (Fz_error 7 ''syntax error''))) (Ptr 1) (Ptr 4) 7 0) \<and>
   fst (mp_load_outline (stub_fitz (Throws (Fz_error 2 ''no such file'')) (Throws (Fz_error 2 ''no such file''))) (Ptr 1) (Ptr 4) 0) = fst (mp_load_outline (stub_fitz (Throws (Fz_error 7 ''syntax error'')) (Throws (Fz_error 7 ''syntax error''))) (Ptr 1) (Ptr 4) 0) \<and>
   fst (mp_count_pages (stub_fitz (Throws (Fz_error 2 ''no such file'')) (Throws (Fz_error 2 ''no such file''))) (Ptr 1) (Ptr 4) 0) = fst (mp_count_pages (stub_fitz (Throws (Fz_error 7 ''syntax error'')) (Throws (Fz_error 7 ''syntax error''))) (Ptr 1) (Ptr 4) 0) \<and>
   fst (mp_new_stext_page_from_page (stub_fitz (Throws (Fz_error 2 ''no such file'')) (Throws (Fz_error 2 ''no such file''))) (Ptr 1) (Ptr 5) NULL 0) =
     fst (mp_new_stext_page_from_page (stub_fitz (Throws (Fz_error 7 ''syntax error'')) (Throws (Fz_error 7 ''syntax error''))) (Ptr 1) (Ptr 5) NULL 0)"
  using failure_value_independent_of_exception
    [where ?L1.0 = "stub_fitz (Throws (Fz_error 2 ''no such file'')) (Throws (Fz_error 2 ''no such file''))" and ?L2.0 = "stub_fitz (Throws (Fz_error 7 ''syntax error'')) (Throws (Fz_error 7 ''syntax error''))"
       and ctx = "Ptr 1" and path = "Ptr 2" and kind = "Ptr 2" and stream = "Ptr 3"
       and doc = "Ptr 4" and pageno = 7 and page = "Ptr 5" and options = NULL
       and ?w1.0 = 0 and ?w1' = 1 and ?w2.0 = 0 and ?w2' = 1
       and ?e1.0 = "Fz_error 2 ''no such file''" and ?e2.0 = "Fz_error 7 ''syntax error''"]
  by (simp add: stub_fitz_def)

text \<open>
  C9. No wrapped operation checks its arguments: for every input (a null document or page,
  a negative page index, a null path or stream among them), the wrapper makes exactly one
  call, to its own library function, with its arguments unchanged and in order. Seen
  through the recording library: the log grows by that one call, and the state is the
  state that call left.
\<close>

theorem wrapper_forwards_arguments_once:
  "snd (mp_open_document (recording L) ctx path (tr, w)) =
     (tr @ [Open_document ctx path], snd (fz_open_document L ctx path w)) \<and>
   snd (mp_open_document_with_stream (recording L) ctx kind stream (tr, w)) =
     (tr @ [Open_document_with_stream ctx kind stream],
      snd (fz_open_document_with_stream L ctx kind stream w)) \<and>
   snd (mp_load_page (recording L) ctx doc pageno (tr, w)) =
     (tr @ [Load_page ctx doc pageno], snd (fz_load_page L ctx doc pageno w)) \<and>
   snd (mp_load_outline (recording L) ctx doc (tr, w)) =
     (tr @ [Load_outline ctx doc], snd (fz_load_outline L ctx doc w)) \<and>
   snd (mp_count_pages (recording L) ctx doc (tr, w)) =
     (tr @ [Count_pages ctx doc], snd (fz_count_pages L ctx doc w)) \<and>
   snd (mp_new_stext_page_from_page (recording L) ctx page options (tr, w)) =
     (tr @ [New_stext_page_from_page ctx page options],
      snd (fz_new_stext_page_from_page L ctx page options w))"
  by (simp add: mp_defs WRAP_snd recording_def logged_snd)

theorem wrapper_forwards_arguments_once_witness:
  "snd (mp_open_document (recording (stub_fitz (Throws (Fz_error 2 ''no such file'')) (Throws (Fz_error 2 ''no such file'')))) (Ptr 1) NULL ([], 0)) =
     ([Open_document (Ptr 1) NULL], 1) \<and>
   snd (mp_open_document_with_stream (recording (stub_fitz (Throws (Fz_error 2 ''no such file'')) (Throws (Fz_error 2 ''no such file'')))) (Ptr 1) (Ptr 2) NULL ([], 0)) =
     ([Open_document_with_stream (Ptr 1) (Ptr 2) NULL], 1) \<and>
   snd (mp_load_page (recording (stub_fitz (Throws (Fz_error 2 ''no such file'')) (Throws (Fz_error 2 ''no such file'')))) (Ptr 1) NULL (- 5) ([], 0)) =
     ([Load_page (Ptr 1) NULL (- 5)], 1) \<and>
   snd (mp_load_outline (recording (stub_fitz (Throws (Fz_error 2 ''no such file'')) (Throws (Fz_error 2 ''no such file'')))) (Ptr 1) NULL ([], 0)) =
     ([Load_outline (Ptr 1) NULL], 1) \<and>
   snd (mp_count_pages (recording (stub_fitz (Throws (Fz_error 2 ''no such file'')) (Throws (Fz_error 2 ''no such file'')))) (Ptr 1) NULL ([], 0)) =
     ([Count_pages (Ptr 1) NULL], 1) \<and>
   snd (mp_new_stext_page_from_page (recording (stub_fitz (Throws (Fz_error 2 ''no such file'')) (Throws (Fz_error 2 ''no such file'')))) (Ptr 1) NULL NULL ([], 0)) =
     ([New_stext_page_from_page (Ptr 1) NULL NULL], 1)"
  using wrapper_forwards_arguments_once
    [where L = "stub_fitz (Throws (Fz_error 2 ''no such file'')) (Throws (Fz_error 2 ''no such file''))"
       and ctx = "Ptr 1" and path = NULL and kind = "Ptr 2" and stream = NULL
       and doc = NULL and pageno = "- 5" and page = NULL and options = NULL
       and tr = "[]" and w = 0]
  by (simp add: stub_fitz_def)

text \<open>
  C10. Every wrapped operation returns an assigned value on every path: after the
  \<^verbatim>\<open>fz_try\<close>/\<^verbatim>\<open>fz_catch\<close> statement no exception is in flight and \<^verbatim>\<open>ret\<close> holds
  a value; the operation returns the call's result when the call returns and the sentinel
  when it throws, never an unassigned \<^verbatim>\<open>ret\<close>.
\<close>

theorem wrapper_returns_assigned_value:
  "fst (fz_try_catch ctx (assign_call call) (assign_val failure_val) \<lparr>ret = None, world = w\<rparr>)
     = None \<and>
   ret (snd (fz_try_catch ctx (assign_call call) (assign_val failure_val)
     \<lparr>ret = None, world = w\<rparr>)) =
     Some (case fst (call w) of Returns v \<Rightarrow> v | Throws e \<Rightarrow> failure_val) \<and>
   fst (mp_open_document L ctx path w) =
     Returns (Some (case fst (fz_open_document L ctx path w) of
                      Returns v \<Rightarrow> v | Throws e \<Rightarrow> NULL)) \<and>
   fst (mp_open_document_with_stream L ctx kind stream w) =
     Returns (Some (case fst (fz_open_document_with_stream L ctx kind stream w) of
                      Returns v \<Rightarrow> v | Throws e \<Rightarrow> NULL)) \<and>
   fst (mp_load_page L ctx doc pageno w) =
     Returns (Some (case fst (fz_load_page L ctx doc pageno w) of
                      Returns v \<Rightarrow> v | Throws e \<Rightarrow> NULL)) \<and>
   fst (mp_load_outline L ctx doc w) =
     Returns (Some (case fst (fz_load_outline L ctx doc w) of
                      Returns v \<Rightarrow> v | Throws e \<Rightarrow> NULL)) \<and>
   fst (mp_count_pages L ctx doc w) =
     Returns (Some (case fst (fz_count_pages L ctx doc w) of
                      Returns v \<Rightarrow> v | Throws e \<Rightarrow> - 1)) \<and>
   fst (mp_new_stext_page_from_page L ctx page options w) =
     Returns (Some (case fst (fz_new_stext_page_from_page L ctx page options w) of
                      Returns v \<Rightarrow> v | Throws e \<Rightarrow> NULL))"
proof -
  have region:
    "fz_try_catch ctx (assign_call call) (assign_val failure_val) \<lparr>ret = None, world = w\<rparr> =
       (None, \<lparr>ret = Some (case fst (call w) of Returns v \<Rightarrow> v | Throws e \<Rightarrow> failure_val),
               world = snd (call w)\<rparr>)"
  proof (cases "call w")
    case (Pair r w')
    then show ?thesis
      by (cases r) (simp_all add: fz_try_catch_def assign_call_def assign_val_def)
  qed
  show ?thesis
    by (simp add: region mp_defs WRAP_fst)
qed

theorem wrapper_returns_assigned_value_witness:
  "fst (mp_open_document (stub_fitz (Returns (Ptr 9)) (Returns 3)) (Ptr 1) (Ptr 2) 0) = Returns (Some (Ptr 9)) \<and>
   fst (mp_count_pages (stub_fitz (Returns (Ptr 9)) (Returns 3)) (Ptr 1) (Ptr 4) 0) = Returns (Some 3) \<and>
   fst (mp_open_document (stub_fitz (Throws (Fz_error 2 ''no such file'')) (Throws (Fz_error 2 ''no such file''))) (Ptr 1) (Ptr 2) 0) = Returns (Some NULL) \<and>
   fst (mp_open_document_with_stream (stub_fitz (Throws (Fz_error 2 ''no such file'')) (Throws (Fz_error 2 ''no such file''))) (Ptr 1) (Ptr 2) (Ptr 3) 0) = Returns (Some NULL) \<and>
   fst (mp_load_page (stub_fitz (Throws (Fz_error 2 ''no such file'')) (Throws (Fz_error 2 ''no such file''))) (Ptr 1) (Ptr 4) 7 0) = Returns (Some NULL) \<and>
   fst (mp_load_outline (stub_fitz (Throws (Fz_error 2 ''no such file'')) (Throws (Fz_error 2 ''no such file''))) (Ptr 1) (Ptr 4) 0) = Returns (Some NULL) \<and>
   fst (mp_count_pages (stub_fitz (Throws (Fz_error 2 ''no such file'')) (Throws (Fz_error 2 ''no such file''))) (Ptr 1) (Ptr 4) 0) = Returns (Some (- 1)) \<and>
   fst (mp_new_stext_page_from_page (stub_fitz (Throws (Fz_error 2 ''no such file'')) (Throws (Fz_error 2 ''no such file''))) (Ptr 1) (Ptr 5) NULL 0) = Returns (Some NULL)"
  using wrapper_returns_assigned_value
    [where L = "stub_fitz (Returns (Ptr 9)) (Returns 3)" and call = "fz_count_pages (stub_fitz (Returns (Ptr 9)) (Returns 3)) (Ptr 1) (Ptr 4)" and failure_val = "- 1"
       and ctx = "Ptr 1" and path = "Ptr 2" and kind = "Ptr 2" and stream = "Ptr 3"
       and doc = "Ptr 4" and pageno = 7 and page = "Ptr 5" and options = NULL and w = 0]
    wrapper_returns_assigned_value
    [where L = "stub_fitz (Throws (Fz_error 2 ''no such file'')) (Throws (Fz_error 2 ''no such file''))" and call = "fz_count_pages (stub_fitz (Throws (Fz_error 2 ''no such file'')) (Throws (Fz_error 2 ''no such file''))) (Ptr 1) (Ptr 4)" and failure_val = "- 1"
       and ctx = "Ptr 1" and path = "Ptr 2" and kind = "Ptr 2" and stream = "Ptr 3"
       and doc = "Ptr 4" and pageno = 7 and page = "Ptr 5" and options = NULL and w = 0]
  by (simp add: stub_fitz_def)

end
